theory Spec2Isabelle
  imports Main
begin

section \<open>JavaScript values used by the route handler\<close>

text \<open>
  Query-string parameters and header values are JavaScript strings or \<open>undefined\<close>:
  \<open>string option\<close>, with \<open>None\<close> for \<open>undefined\<close>. Strings are byte lists, so the
  white space recognised below is the ASCII part of JavaScript's white space.
  Parameters repeated in the URL (which the framework turns into arrays) are not modelled.
\<close>

type_synonym js_string = "string option"

datatype js_error =
    ReferenceError string
  | TypeError string
  | RangeError string
  | SyntaxError string
  | Error string

text \<open>A number produced by \<open>parseInt\<close>: an integer or \<open>NaN\<close>. Integers are kept exact;
  JavaScript rounds them to the nearest double beyond \<open>2^53\<close>.\<close>

datatype js_number = NaN | Num int

text \<open>Truthiness of a string-or-undefined value: \<open>undefined\<close> and the empty string are falsy.\<close>

definition truthy :: "js_string \<Rightarrow> bool" where
  "truthy v = (case v of None \<Rightarrow> False | Some s \<Rightarrow> s \<noteq> [])"

text \<open>\<open>a || b\<close> and \<open>a && b\<close> return one of their operands.\<close>

definition js_or :: "js_string \<Rightarrow> js_string \<Rightarrow> js_string" where
  "js_or a b = (if truthy a then a else b)"

definition js_and :: "js_string \<Rightarrow> js_string \<Rightarrow> js_string" where
  "js_and a b = (if truthy a then b else a)"

text \<open>\<open>if (v) target = f(v)\<close>: the assignment happens for a truthy \<open>v\<close> only.\<close>

definition if_truthy :: "js_string \<Rightarrow> (string \<Rightarrow> 'a) \<Rightarrow> 'a option" where
  "if_truthy v f = (case v of None \<Rightarrow> None | Some s \<Rightarrow> if s = [] then None else Some (f s))"

definition is_ws :: "char \<Rightarrow> bool" where
  "is_ws c = (c \<in> set [CHR 0x09, CHR 0x0A, CHR 0x0B, CHR 0x0C, CHR 0x0D, CHR 0x20])"

definition is_digit :: "char \<Rightarrow> bool" where
  "is_digit c = (48 \<le> (of_char c :: nat) \<and> (of_char c :: nat) \<le> 57)"

definition digit_val :: "char \<Rightarrow> int" where
  "digit_val c = int (of_char c) - 48"

definition digits_value :: "string \<Rightarrow> int" where
  "digits_value ds = foldl (\<lambda>acc c. acc * 10 + digit_val c) 0 ds"

text \<open>\<open>String.prototype.trim\<close>.\<close>

definition trim :: "string \<Rightarrow> string" where
  "trim s = rev (dropWhile is_ws (rev (dropWhile is_ws s)))"

text \<open>\<open>String.prototype.split\<close> with a one-character separator.\<close>

fun split :: "char \<Rightarrow> string \<Rightarrow> string list" where
  "split sep [] = [[]]"
| "split sep (c # cs) =
     (if c = sep then [] # split sep cs
      else (case split sep cs of
              [] \<Rightarrow> [[c]]
            | w # ws \<Rightarrow> (c # w) # ws))"

text \<open>\<open>parseInt(s, 10)\<close>: leading white space is skipped, one sign is accepted, the longest
  run of decimal digits is read and anything after it is ignored; no digit gives \<open>NaN\<close>.\<close>

definition parseInt :: "string \<Rightarrow> js_number" where
  "parseInt s =
     (let t = dropWhile is_ws s;
          sign = (case t of c # _ \<Rightarrow> if c = CHR ''-'' then - 1 else (1::int) | [] \<Rightarrow> 1);
          r = (case t of c # cs \<Rightarrow> if c = CHR ''-'' \<or> c = CHR ''+'' then cs else t | [] \<Rightarrow> []);
          z = takeWhile is_digit r
      in if z = [] then NaN else Num (sign * digits_value z))"


section \<open>Payment data model\<close>

text \<open>The records of this section are the data model of sections 3 and 6 of the
  specification; \<open>payment\<close> is also what the route handler reads as \<open>req.payment\<close>
  (lines 95 to 97).\<close>

datatype network = TestNetwork | ProductionNetwork

text \<open>Amounts are counted in the smallest unit of the canonical token (an integer), which is how
  a fixed-scale decimal is compared.\<close>

record payment_requirement =
  recipientAddress :: string
  minimumAmount :: int
  tolerance :: int
  network :: network
  tokenContract :: string

text \<open>What the gate attaches to the request as \<open>req.payment\<close>, and what a successful verdict carries.\<close>

record payment =
  hash :: string
  amount :: int
  timestamp :: nat

datatype verdict =
    Verified payment
  | NotFound
  | Pending
  | WrongRecipient
  | InsufficientAmount
  | TransactionFailed
  | DevModeBypass payment

fun payment_of :: "verdict \<Rightarrow> payment option" where
  "payment_of (Verified p) = Some p"
| "payment_of (DevModeBypass p) = Some p"
| "payment_of v = None"

record cache_entry =
  entry_verdict :: verdict
  createdAt :: nat

datatype exec_status = Success | Failure

record transfer_event =
  ev_sender :: string
  ev_recipient :: string
  ev_token :: string
  ev_amount :: int

text \<open>What the adapter returns for a transaction it has (section 6): its status, the token
  transfer it effected if there is one (\<open>transferEvent?\<close>), and its timestamp.\<close>

record ledger_tx =
  finalized :: bool
  status :: exec_status
  transferEvent :: "transfer_event option"
  tx_timestamp :: nat

text \<open>The Ledger Query Adapter's \<open>getTransaction(hash, network)\<close>: \<open>None\<close> when the ledger has
  no such transaction.\<close>

type_synonym ledger = "string \<Rightarrow> network \<Rightarrow> ledger_tx option"


section \<open>The transfers route: \<open>src/routes/transfers.js\<close>\<close>

record query =
  q_address :: js_string
  q_fromAddress :: js_string
  q_toAddress :: js_string
  q_category :: js_string
  q_fromBlock :: js_string
  q_toBlock :: js_string
  q_maxCount :: js_string
  q_pageKey :: js_string
  q_order :: js_string
  q_contractAddresses :: js_string

record request =
  paymentHash :: js_string
  req_query :: query

text \<open>The object handed to \<open>getAssetTransfers\<close>. A field that the handler never assigns is
  \<open>None\<close>; \<open>fromAddress\<close> and \<open>toAddress\<close> are always assigned, possibly \<open>undefined\<close>.\<close>

record query_params =
  fromAddress :: js_string
  toAddress :: js_string
  category :: "string list option"
  contractAddresses :: "string list option"
  fromBlock :: js_string
  toBlock :: js_string
  maxCount :: "js_number option"
  pageKey :: js_string
  order :: js_string

text \<open>What the provider client resolves to: its data, with the two fields the handler reads.
  A client that resolves to something that is not an object is not modelled.\<close>

record 'd provider_result =
  r_data :: 'd
  r_pageKey :: js_string
  r_totalCount :: "int option"

record pagination =
  hasMore :: bool
  p_pageKey :: js_string
  p_count :: "int option"

record bad_request_body =
  b_error :: string
  b_status :: nat
  b_message :: string
  b_example :: string

record 'd success_body =
  success :: bool
  data :: "'d provider_result"
  s_payment :: "payment option"
  s_pagination :: pagination

text \<open>The state the claims talk about: the Verified-Payment Cache, the hashes looked up on the
  ledger so far, and the queries handed to the data provider so far.\<close>

record app_state =
  cache :: "string \<rightharpoonup> cache_entry"
  ledgerQueries :: "string list"
  providerCalls :: "query_params list"

definition init_state :: app_state where
  "init_state = \<lparr>cache = Map.empty, ledgerQueries = [], providerCalls = []\<rparr>"

text \<open>Lines 60 to 80: the query object built from \<open>req.query\<close>.\<close>

definition build_query_params :: "query \<Rightarrow> query_params" where
  "build_query_params q =
     \<lparr>fromAddress = js_or (q_fromAddress q) (js_and (q_address q) (q_address q)),
      toAddress = js_or (q_toAddress q) (js_and (q_address q) (q_address q)),
      category = if_truthy (q_category q) (\<lambda>c. map trim (split CHR '','' c)),
      contractAddresses = if_truthy (q_contractAddresses q) (\<lambda>a. map trim (split CHR '','' a)),
      fromBlock = if_truthy (q_fromBlock q) id,
      toBlock = if_truthy (q_toBlock q) id,
      maxCount = if_truthy (q_maxCount q) parseInt,
      pageKey = if_truthy (q_pageKey q) id,
      order = if_truthy (q_order q) id\<rparr>"

definition bad_request :: bad_request_body where
  "bad_request =
     \<lparr>b_error = ''Bad Request'', b_status = 400,
      b_message = ''At least one of: address, fromAddress, or toAddress is required'',
      b_example = ''/api/transfers?address=addr...''\<rparr>"

text \<open>Lines 99 to 103.\<close>

definition pagination_of :: "'d provider_result \<Rightarrow> pagination" where
  "pagination_of result =
     \<lparr>hasMore = truthy (r_pageKey result),
      p_pageKey = r_pageKey result,
      p_count = r_totalCount result\<rparr>"

text \<open>The 402 body, and the reasons the gate gives when it turns a proof down.\<close>

record challenge =
  ch_amount :: string
  ch_network :: network
  ch_recipientAddress :: string
  ch_instructions :: string

datatype reason = FailedVerdict verdict | BypassOutsideDevelopmentMode

datatype gate_error = VerificationRejected reason | VerificationPending

datatype gate_result = Admitted verdict | Challenge challenge | Rejected gate_error

datatype 'd body =
    ChallengeBody challenge
  | BadRequestBody bad_request_body
  | SuccessBody "'d success_body"

text \<open>\<open>Json code body\<close> is \<open>res.status(code).json(body)\<close>; \<open>Rejection\<close> is the gate's 4xx answer
  carrying its reason; \<open>NextError\<close> is \<open>next(error)\<close>.\<close>

datatype 'd response =
    Json nat "'d body"
  | Rejection gate_error
  | NextError js_error

text \<open>The handler of \<open>router.get('/')\<close>, lines 35 to 107. \<open>getAssetTransfers\<close> is the provider
  client of \<open>services/alchemy.js\<close>, a parameter here: its promise resolves (\<open>Inr\<close>) or rejects
  (\<open>Inl\<close>), and each call is recorded in \<open>providerCalls\<close>.\<close>

definition transfers_handler ::
  "(query_params \<Rightarrow> js_error + 'd provider_result) \<Rightarrow> payment option \<Rightarrow> query \<Rightarrow> app_state
     \<Rightarrow> 'd response \<times> app_state" where
  "transfers_handler getAssetTransfers req_payment q s =
     (if \<not> truthy (q_address q) \<and> \<not> truthy (q_fromAddress q) \<and> \<not> truthy (q_toAddress q)
      then (Json 400 (BadRequestBody bad_request), s)
      else
        (let queryParams = build_query_params q;
             s' = s\<lparr>providerCalls := providerCalls s @ [queryParams]\<rparr>
         in case getAssetTransfers queryParams of
              Inl e \<Rightarrow> (NextError e, s')
            | Inr result \<Rightarrow>
                (Json 200 (SuccessBody
                   \<lparr>success = True, data = result, s_payment = req_payment,
                    s_pagination = pagination_of result\<rparr>), s')))"

text \<open>\<open>router.get('/', gate, handler)\<close>, line 34: the handler runs only when the middleware
  before it lets the request through, and reads as \<open>req.payment\<close> what the admitting
  verdict carries (section 4.1 of the specification).\<close>

definition gated ::
  "(request \<Rightarrow> app_state \<Rightarrow> gate_result \<times> app_state)
     \<Rightarrow> (payment option \<Rightarrow> query \<Rightarrow> app_state \<Rightarrow> 'd response \<times> app_state)
     \<Rightarrow> request \<Rightarrow> app_state \<Rightarrow> 'd response \<times> app_state" where
  "gated gate handler req s =
     (case gate req s of
        (Challenge c, s') \<Rightarrow> (Json 402 (ChallengeBody c), s')
      | (Rejected e, s') \<Rightarrow> (Rejection e, s')
      | (Admitted v, s') \<Rightarrow> handler (payment_of v) (req_query req) s')"


section \<open>The payment middleware\<close>

text \<open>\<open>middleware/payment.js\<close> is imported by the route but its text is not part of the
  sources at hand; the definitions of this section follow the specification.\<close>

record gate_options =
  price :: string

record gate_env =
  developmentMode :: bool
  requirement :: payment_requirement
  instructions :: string

text \<open>Modelled from the spec: the literal bypass token of sections 3 and 8.\<close>

definition bypassToken :: string where
  "bypassToken = ''demo''"

text \<open>Modelled from the spec: the case-insensitive comparison of addresses of section 4.2,
  step 4, on ASCII letters.\<close>

definition to_lower :: "char \<Rightarrow> char" where
  "to_lower c =
     (if 65 \<le> (of_char c :: nat) \<and> (of_char c :: nat) \<le> 90
      then char_of ((of_char c :: nat) + 32) else c)"

definition same_address :: "string \<Rightarrow> string \<Rightarrow> bool" where
  "same_address a b = (map to_lower a = map to_lower b)"

text \<open>Modelled from the spec: the one external read of the verifier (section 4.2), the
  adapter's \<open>getTransaction\<close> of section 6; the looked-up hash is recorded.\<close>

definition getTransaction ::
  "ledger \<Rightarrow> string \<Rightarrow> network \<Rightarrow> app_state \<Rightarrow> ledger_tx option \<times> app_state" where
  "getTransaction l h n s = (l h n, s\<lparr>ledgerQueries := ledgerQueries s @ [h]\<rparr>)"

text \<open>Modelled from the spec: the Payment Verifier \<open>verify(transactionHash, requirement)\<close> of
  section 4.2, whose source (\<open>middleware/payment.js\<close>) is missing. Steps 1 to 6 in their order.
  Step 3 names no verdict of its own: section 8 sends a token-contract mismatch down the
  \<open>WrongRecipient\<close> path, and this definition does the same for a transaction that carries no
  token transfer at all, there being no transfer to the required recipient. Ledger time-outs
  and faults are outside this model.\<close>

definition decide :: "string \<Rightarrow> payment_requirement \<Rightarrow> ledger_tx option \<Rightarrow> verdict" where
  "decide h rq found =
     (case found of
        None \<Rightarrow> NotFound
      | Some tx \<Rightarrow>
          if \<not> finalized tx then Pending
          else if status tx = Failure then TransactionFailed
          else
            (case transferEvent tx of
               None \<Rightarrow> WrongRecipient
             | Some ev \<Rightarrow>
                 if ev_token ev \<noteq> tokenContract rq then WrongRecipient
                 else if \<not> same_address (ev_recipient ev) (recipientAddress rq)
                   then WrongRecipient
                 else if ev_amount ev < minimumAmount rq - tolerance rq
                   then InsufficientAmount
                 else Verified \<lparr>hash = h, amount = ev_amount ev,
                                timestamp = tx_timestamp tx\<rparr>))"

text \<open>Modelled from the spec: \<open>verify\<close> is the ledger lookup followed by the decision above.\<close>

definition verify ::
  "ledger \<Rightarrow> string \<Rightarrow> payment_requirement \<Rightarrow> app_state \<Rightarrow> verdict \<times> app_state" where
  "verify l h rq s =
     (case getTransaction l h (network rq) s of (found, s') \<Rightarrow> (decide h rq found, s'))"

text \<open>Modelled from the spec: the Verified-Payment Cache \<open>put(hash, verdict)\<close> of section 4.4,
  whose source is missing. The entry is stamped with the time of the write.\<close>

definition put :: "string \<Rightarrow> verdict \<Rightarrow> nat \<Rightarrow> app_state \<Rightarrow> app_state" where
  "put h v now s = s\<lparr>cache := (cache s)(h \<mapsto> \<lparr>entry_verdict = v, createdAt = now\<rparr>)\<rparr>"

text \<open>Modelled from the spec: the Payment Gate \<open>admit(request, requirement)\<close> of section 4.1,
  built by \<open>paymentRequired(options)\<close>, whose source (\<open>middleware/payment.js\<close>) is missing.
  No proof header: the challenge. The bypass token: admitted with a synthetic verdict in
  development mode, \<open>VerificationRejected\<close> outside it (section 7). Any other proof: the cache
  first, then the verifier; only a \<open>Verified\<close> verdict is written to the cache. The challenge
  shows the \<open>price\<close> option as its amount; the synthetic verdict carries the required amount
  and the time of the request.\<close>

definition paymentRequired ::
  "gate_options \<Rightarrow> gate_env \<Rightarrow> ledger \<Rightarrow> nat \<Rightarrow> request \<Rightarrow> app_state
     \<Rightarrow> gate_result \<times> app_state" where
  "paymentRequired opts env l now req s =
     (case paymentHash req of
        None \<Rightarrow>
          (Challenge \<lparr>ch_amount = price opts, ch_network = network (requirement env),
                      ch_recipientAddress = recipientAddress (requirement env),
                      ch_instructions = instructions env\<rparr>, s)
      | Some proof \<Rightarrow>
          if proof = bypassToken then
            (if developmentMode env
             then (Admitted (DevModeBypass \<lparr>hash = bypassToken,
                      amount = minimumAmount (requirement env), timestamp = now\<rparr>), s)
             else (Rejected (VerificationRejected BypassOutsideDevelopmentMode), s))
          else
            (case cache s proof of
               Some entry \<Rightarrow> (Admitted (entry_verdict entry), s)
             | None \<Rightarrow>
                 (case verify l proof (requirement env) s of
                    (Verified p, s') \<Rightarrow> (Admitted (Verified p), put proof (Verified p) now s')
                  | (Pending, s') \<Rightarrow> (Rejected VerificationPending, s')
                  | (v, s') \<Rightarrow> (Rejected (VerificationRejected (FailedVerdict v)), s'))))"

text \<open>Line 34 of \<open>routes/transfers.js\<close>: the route with its gate, \<open>paymentRequired({ price: '0.01' })\<close>.\<close>

definition transfers_route ::
  "gate_env \<Rightarrow> ledger \<Rightarrow> nat \<Rightarrow> (query_params \<Rightarrow> js_error + 'd provider_result)
     \<Rightarrow> request \<Rightarrow> app_state \<Rightarrow> 'd response \<times> app_state" where
  "transfers_route env l now getAssetTransfers =
     gated (paymentRequired \<lparr>price = ''0.01''\<rparr> env l now) (transfers_handler getAssetTransfers)"


section \<open>The payment script: \<open>send-payment.js\<close>\<close>

definition USDC_CONTRACT :: string where
  "USDC_CONTRACT = ''EPjFWdd5AufqSSqeM2qN1xzybapC8G4wEGGkZwyTDt1v''"

definition TOKEN_PROGRAM_ID :: string where
  "TOKEN_PROGRAM_ID = ''TokenkegQfeZyiNwAJbNbGKPFXCWuBvf9Ss623VQ5DA''"

text \<open>The string constants the module declares (lines 13 and 16). The other bindings of the
  module are the four imports of \<open>alchemy-sdk\<close>, \<open>dotenv\<close> and the two functions.\<close>

definition module_consts :: "(string \<times> string) list" where
  "module_consts =
     [(''USDC_CONTRACT'', USDC_CONTRACT), (''TOKEN_PROGRAM_ID'', TOKEN_PROGRAM_ID)]"

text \<open>Reading an identifier that no declaration binds throws a \<open>ReferenceError\<close>.\<close>

definition resolve :: "string \<Rightarrow> js_error + string" where
  "resolve x =
     (case map_of module_consts x of
        Some v \<Rightarrow> Inr v
      | None \<Rightarrow> Inl (ReferenceError x))"

definition radix_digit :: "char \<Rightarrow> nat option" where
  "radix_digit c =
     (let n = (of_char c :: nat)
      in if 48 \<le> n \<and> n \<le> 57 then Some (n - 48)
         else if 97 \<le> n \<and> n \<le> 122 then Some (n - 87)
         else if 65 \<le> n \<and> n \<le> 90 then Some (n - 55)
         else None)"

definition is_radix_digit :: "nat \<Rightarrow> char \<Rightarrow> bool" where
  "is_radix_digit r c = (case radix_digit c of None \<Rightarrow> False | Some d \<Rightarrow> d < r)"

definition radix_value :: "nat \<Rightarrow> string \<Rightarrow> int" where
  "radix_value r ds =
     foldl (\<lambda>acc c. acc * int r + int (case radix_digit c of None \<Rightarrow> 0 | Some d \<Rightarrow> d)) 0 ds"

definition radix_literal :: "nat \<Rightarrow> string \<Rightarrow> js_error + int" where
  "radix_literal r ds =
     (if ds \<noteq> [] \<and> list_all (is_radix_digit r) ds then Inr (radix_value r ds)
      else Inl (SyntaxError ds))"

text \<open>\<open>BigInt(v)\<close> for a string or \<open>null\<close>: \<open>null\<close> is a \<open>TypeError\<close>; a string is trimmed, the
  empty string is \<open>0n\<close>, a \<open>0x\<close>, \<open>0o\<close> or \<open>0b\<close> prefix selects the radix, otherwise it is a
  decimal literal with an optional sign; anything else is a \<open>SyntaxError\<close>.\<close>

definition BigInt :: "js_string \<Rightarrow> js_error + int" where
  "BigInt v =
     (case v of
        None \<Rightarrow> Inl (TypeError ''Cannot convert null to a BigInt'')
      | Some s \<Rightarrow>
          (let t = trim s
           in if t = [] then Inr 0
              else if take 2 t = ''0x'' \<or> take 2 t = ''0X'' then radix_literal 16 (drop 2 t)
              else if take 2 t = ''0o'' \<or> take 2 t = ''0O'' then radix_literal 8 (drop 2 t)
              else if take 2 t = ''0b'' \<or> take 2 t = ''0B'' then radix_literal 2 (drop 2 t)
              else if hd t = CHR ''-'' then map_sum id uminus (radix_literal 10 (tl t))
              else if hd t = CHR ''+'' then radix_literal 10 (tl t)
              else radix_literal 10 t))"

definition hex_char :: "nat \<Rightarrow> char" where
  "hex_char d = (if d < 10 then char_of (48 + d) else char_of (87 + d))"

fun hex_digits :: "nat \<Rightarrow> nat \<Rightarrow> string" where
  "hex_digits 0 n = []"
| "hex_digits (Suc fuel) n =
     (if n < 16 then [hex_char n] else hex_digits fuel (n div 16) @ [hex_char (n mod 16)])"

text \<open>\<open>n.toString(16)\<close> for a BigInt; \<open>n + 1\<close> rounds of division are more than its digits.\<close>

definition toString16 :: "int \<Rightarrow> string" where
  "toString16 n =
     (if n < 0 then CHR ''-'' # hex_digits (Suc (nat (- n))) (nat (- n))
      else hex_digits (Suc (nat n)) (nat n))"

text \<open>\<open>s.padStart(n, c)\<close> with a one-character filler.\<close>

definition padStart :: "nat \<Rightarrow> char \<Rightarrow> string \<Rightarrow> string" where
  "padStart n c s = replicate (n - length s) c @ s"

record token_balance =
  contractAddress :: string
  tokenBalance :: js_string

record transaction_request =
  tx_to :: string
  tx_data :: string
  tx_gasLimit :: int

record receipt =
  rc_hash :: string
  rc_status :: int

text \<open>What the script gets from outside: the wallet built from the private key (its address, or
  the constructor's exception), the provider's answer to \<open>getTokenBalances\<close>, and the two
  awaited steps of sending. \<open>tokenBalance\<close> is a string or \<open>null\<close>.\<close>

record wallet_env =
  walletAddress :: "js_error + string"
  getTokenBalances :: "string \<Rightarrow> string list \<Rightarrow> js_error + token_balance list"
  sendTransaction :: "transaction_request \<Rightarrow> js_error + string"
  wait :: "string \<Rightarrow> js_error + receipt"

datatype outcome = Returned string | Exit nat | Thrown js_error

text \<open>Lines 86 to 145: the \<open>try\<close> block; whatever it throws ends in \<open>process.exit(1)\<close>.\<close>

definition send_and_wait :: "wallet_env \<Rightarrow> transaction_request \<Rightarrow> outcome" where
  "send_and_wait w tx =
     (case sendTransaction w tx of
        Inl e \<Rightarrow> Exit 1
      | Inr response \<Rightarrow>
          (case wait w response of
             Inl e \<Rightarrow> Exit 1
           | Inr receipt \<Rightarrow> if rc_status receipt = 1 then Returned (rc_hash receipt) else Exit 1))"

text \<open>\<open>sendUSDCPayment(privateKey, recipient, amountInUSDC)\<close>, lines 18 to 146, without its
  console output. The result is paired with the transactions handed to
  \<open>wallet.sendTransaction\<close>. \<open>amountBigInt\<close> is the value that line 55 computes,
  \<open>BigInt(Math.floor(amountInUSDC * 1e6))\<close>, \<open>None\<close> when that throws (the amount is not a
  finite number): the floating-point product is not recomputed here.\<close>

definition sendUSDCPayment ::
  "wallet_env \<Rightarrow> string \<Rightarrow> int option \<Rightarrow> outcome \<times> transaction_request list" where
  "sendUSDCPayment w recipient amountBigInt =
     (case walletAddress w of
        Inl e \<Rightarrow> (Thrown e, [])
      | Inr senderAddress \<Rightarrow>
     (case getTokenBalances w senderAddress [USDC_CONTRACT] of
        Inl e \<Rightarrow> (Thrown e, [])
      | Inr tokenBalances \<Rightarrow>
     (case tokenBalances of
        [] \<Rightarrow> (Thrown (TypeError ''Cannot read properties of undefined''), [])
      | balance # _ \<Rightarrow>
     if tokenBalance balance = Some ''addr'' \<or> tokenBalance balance = Some ''0x0''
     then (Exit 1, [])
     else
     (case BigInt (tokenBalance balance) of
        Inl e \<Rightarrow> (Thrown e, [])
      | Inr balanceInSmallestUnit \<Rightarrow>
     (case amountBigInt of
        None \<Rightarrow> (Thrown (RangeError ''The number cannot be converted to a BigInt''), [])
      | Some amountInSmallestUnit \<Rightarrow>
     if amountInSmallestUnit > balanceInSmallestUnit then (Exit 1, [])
     else
       (let recipientPadded = padStart 64 CHR ''0'' (drop 2 recipient);
            amountHex = padStart 64 CHR ''0'' (toString16 amountInSmallestUnit)
        in case resolve ''TRANSFER_FUNCTION_SIGNATURE'' of
             Inl e \<Rightarrow> (Thrown e, [])
           | Inr signature \<Rightarrow>
               (let tx = \<lparr>tx_to = USDC_CONTRACT,
                          tx_data = signature @ recipientPadded @ amountHex,
                          tx_gasLimit = 100000\<rparr>
                in (send_and_wait w tx, [tx]))))))))"


section \<open>Sample inputs\<close>

text \<open>A query with the three address filters and \<open>maxCount\<close> as given, nothing else.\<close>

definition mk_query :: "js_string \<Rightarrow> js_string \<Rightarrow> js_string \<Rightarrow> js_string \<Rightarrow> query" where
  "mk_query a f t m =
     \<lparr>q_address = a, q_fromAddress = f, q_toAddress = t, q_category = None,
      q_fromBlock = None, q_toBlock = None, q_maxCount = m, q_pageKey = None,
      q_order = None, q_contractAddresses = None\<rparr>"

definition dev_address :: string where
  "dev_address = ''64swuFWG5RDSc3SDUhRKefYJtY5q1EkoixcPg3ZsVpcG''"

text \<open>A provider that answers every query with an empty page and the given cursor.\<close>

definition provider_with :: "js_string \<Rightarrow> query_params \<Rightarrow> js_error + unit provider_result" where
  "provider_with k qp = Inr \<lparr>r_data = (), r_pageKey = k, r_totalCount = Some 0\<rparr>"

definition sample_requirement :: payment_requirement where
  "sample_requirement =
     \<lparr>recipientAddress = dev_address, minimumAmount = 10000, tolerance = 1,
      network = TestNetwork, tokenContract = USDC_CONTRACT\<rparr>"

definition sample_env :: "bool \<Rightarrow> gate_env" where
  "sample_env dev =
     \<lparr>developmentMode = dev, requirement = sample_requirement,
      instructions = ''Send 0.01 USDC on Solana Devnet to receive access''\<rparr>"

definition sample_tx :: "string \<Rightarrow> string \<Rightarrow> int \<Rightarrow> ledger_tx" where
  "sample_tx tok rcp amt =
     \<lparr>finalized = True, status = Success,
      transferEvent =
        Some \<lparr>ev_sender = ''sender'', ev_recipient = rcp, ev_token = tok, ev_amount = amt\<rparr>,
      tx_timestamp = 1700000000\<rparr>"

text \<open>A ledger that knows one transaction, and one that knows none.\<close>

definition ledger_with :: "string \<Rightarrow> ledger_tx \<Rightarrow> ledger" where
  "ledger_with h tx = (\<lambda>h' n. if h' = h then Some tx else None)"

definition empty_ledger :: ledger where
  "empty_ledger = (\<lambda>h n. None)"

definition proof_request :: "js_string \<Rightarrow> query \<Rightarrow> request" where
  "proof_request h q = \<lparr>paymentHash = h, req_query = q\<rparr>"


text \<open>The state after a first request paid with transaction \<open>0xabc\<close> at time 5.\<close>

definition paid_payment :: payment where
  "paid_payment = \<lparr>hash = ''0xabc'', amount = 10000, timestamp = 1700000000\<rparr>"

definition paid_state :: app_state where
  "paid_state =
     \<lparr>cache = [''0xabc'' \<mapsto> \<lparr>entry_verdict = Verified paid_payment, createdAt = 5\<rparr>],
      ledgerQueries = [''0xabc''], providerCalls = []\<rparr>"

text \<open>A wallet holding 10000 units (0.01 USDC) whose transactions would all succeed.\<close>

definition sample_wallet :: wallet_env where
  "sample_wallet =
     \<lparr>walletAddress = Inr ''sender'',
      getTokenBalances =
        (\<lambda>a cs. Inr [\<lparr>contractAddress = USDC_CONTRACT, tokenBalance = Some ''0x2710''\<rparr>]),
      sendTransaction = (\<lambda>tx. Inr ''0xabc''),
      wait = (\<lambda>h. Inr \<lparr>rc_hash = h, rc_status = 1\<rparr>)\<rparr>"


section \<open>Properties of the route handler\<close>

lemma truthy_Some [simp]: "truthy (Some s) = (s \<noteq> [])"
  by (simp add: truthy_def)

lemma truthy_None [simp]: "truthy None = False"
  by (simp add: truthy_def)

lemma js_and_same [simp]: "js_and a a = a"
  by (simp add: js_and_def)

lemma handler_valid:
  assumes "truthy (q_address q) \<or> truthy (q_fromAddress q) \<or> truthy (q_toAddress q)"
  shows "transfers_handler g pay q s =
     (case g (build_query_params q) of
        Inl e \<Rightarrow> NextError e
      | Inr result \<Rightarrow> Json 200 (SuccessBody
           \<lparr>success = True, data = result, s_payment = pay,
            s_pagination = pagination_of result\<rparr>),
      s\<lparr>providerCalls := providerCalls s @ [build_query_params q]\<rparr>)"
  using assms by (auto simp: transfers_handler_def Let_def split: sum.splits)

lemma handler_invalid:
  assumes "\<not> truthy (q_address q)" "\<not> truthy (q_fromAddress q)" "\<not> truthy (q_toAddress q)"
  shows "transfers_handler g pay q s = (Json 400 (BadRequestBody bad_request), s)"
  using assms by (simp add: transfers_handler_def)

lemma mk_query_simps [simp]:
  "q_address (mk_query a f t m) = a"
  "q_fromAddress (mk_query a f t m) = f"
  "q_toAddress (mk_query a f t m) = t"
  "q_maxCount (mk_query a f t m) = m"
  by (simp_all add: mk_query_def)

lemma proof_request_simps:
  "paymentHash (proof_request h q) = h" "req_query (proof_request h q) = q"
  by (simp_all add: proof_request_def)










text \<open>
  C7, as the handler has it: when the query passes validation and the provider answers, the
  response is 200, its \<open>pagination.pageKey\<close> is the provider's \<open>pageKey\<close> unchanged, and
  \<open>pagination.hasMore\<close> is true exactly when the provider's \<open>pageKey\<close> is present and not the
  empty string (\<open>!!result.pageKey\<close>).
\<close>

theorem pagination_pass_through:
  assumes "truthy (q_address q) \<or> truthy (q_fromAddress q) \<or> truthy (q_toAddress q)"
    and "g (build_query_params q) = Inr result"
  shows "\<exists>b. fst (transfers_handler g pay q s) = Json 200 (SuccessBody b)
           \<and> data b = result
           \<and> p_pageKey (s_pagination b) = r_pageKey result
           \<and> hasMore (s_pagination b) = (\<exists>k. r_pageKey result = Some k \<and> k \<noteq> [])"
proof -
  have "hasMore (pagination_of result) = (\<exists>k. r_pageKey result = Some k \<and> k \<noteq> [])"
    by (cases "r_pageKey result") (simp_all add: pagination_of_def)
  then show ?thesis
    using assms by (simp add: handler_valid pagination_of_def)
qed

theorem pagination_pass_through_witness:
  "truthy (q_address (mk_query (Some dev_address) None None None))
   \<and> provider_with (Some ''cursor-1'')
        (build_query_params (mk_query (Some dev_address) None None None))
       = Inr \<lparr>r_data = (), r_pageKey = Some ''cursor-1'', r_totalCount = Some 0\<rparr>
   \<and> (\<exists>b. fst (transfers_handler (provider_with (Some ''cursor-1'')) None
                 (mk_query (Some dev_address) None None None) init_state)
            = Json 200 (SuccessBody b)
          \<and> p_pageKey (s_pagination b) = Some ''cursor-1''
          \<and> hasMore (s_pagination b))"
proof -
  have valid: "truthy (q_address (mk_query (Some dev_address) None None None))
      \<or> truthy (q_fromAddress (mk_query (Some dev_address) None None None))
      \<or> truthy (q_toAddress (mk_query (Some dev_address) None None None))"
    by (simp add: dev_address_def)
  have answer: "provider_with (Some ''cursor-1'')
        (build_query_params (mk_query (Some dev_address) None None None))
       = Inr \<lparr>r_data = (), r_pageKey = Some ''cursor-1'', r_totalCount = Some 0\<rparr>"
    by (simp add: provider_with_def)
  show ?thesis
    using pagination_pass_through
        [where g = "provider_with (Some ''cursor-1'')" and pay = None and s = init_state,
         OF valid answer] valid answer
    by (auto simp: dev_address_def)
qed

text \<open>
  C7 as stated fails for a provider response whose \<open>pageKey\<close> is the empty string: the key is
  there, and it is passed through, but \<open>hasMore\<close> is false.
\<close>

theorem pagination_empty_pageKey_counterexample:
  "fst (transfers_handler (provider_with (Some '''')) None
          (mk_query (Some ''A'') None None None) init_state)
     = Json 200 (SuccessBody
         \<lparr>success = True,
          data = \<lparr>r_data = (), r_pageKey = Some '''', r_totalCount = Some 0\<rparr>,
          s_payment = None,
          s_pagination = \<lparr>hasMore = False, p_pageKey = Some '''', p_count = Some 0\<rparr>\<rparr>)"
  by (simp add: handler_valid provider_with_def pagination_of_def)

text \<open>
  C9, as the handler has it: for a query that passes validation, the object handed to the
  provider has \<open>fromAddress\<close> equal to the request's \<open>fromAddress\<close> when that is present and not
  empty, and equal to \<open>address\<close> otherwise; likewise for \<open>toAddress\<close>.
\<close>

theorem forwarded_addresses:
  assumes "truthy (q_address q) \<or> truthy (q_fromAddress q) \<or> truthy (q_toAddress q)"
  shows "\<exists>qp. providerCalls (snd (transfers_handler g pay q s)) = providerCalls s @ [qp]
           \<and> fromAddress qp = (if truthy (q_fromAddress q) then q_fromAddress q else q_address q)
           \<and> toAddress qp = (if truthy (q_toAddress q) then q_toAddress q else q_address q)"
  using assms by (simp add: handler_valid build_query_params_def js_or_def)

theorem forwarded_addresses_witness:
  "truthy (q_address (mk_query (Some dev_address) (Some ''sender'') None None))
   \<and> (\<exists>qp. providerCalls (snd (transfers_handler (provider_with None) None
                 (mk_query (Some dev_address) (Some ''sender'') None None) init_state)) = [qp]
          \<and> fromAddress qp = Some ''sender''
          \<and> toAddress qp = Some dev_address)"
proof -
  have valid: "truthy (q_address (mk_query (Some dev_address) (Some ''sender'') None None))
      \<or> truthy (q_fromAddress (mk_query (Some dev_address) (Some ''sender'') None None))
      \<or> truthy (q_toAddress (mk_query (Some dev_address) (Some ''sender'') None None))"
    by (simp add: dev_address_def)
  show ?thesis
    using forwarded_addresses
        [where g = "provider_with None" and pay = None and s = init_state, OF valid]
    by (simp add: dev_address_def init_state_def)
qed

text \<open>
  C9 as stated fails when \<open>fromAddress\<close> is supplied as the empty string
  (\<open>?address=A&fromAddress=\<close>): the supplied value does not take precedence, the provider is
  handed \<open>address\<close>.
\<close>

theorem empty_fromAddress_counterexample:
  "q_fromAddress (mk_query (Some ''A'') (Some '''') None None) = Some ''''
   \<and> map fromAddress (providerCalls (snd (transfers_handler (provider_with None) None
          (mk_query (Some ''A'') (Some '''') None None) init_state))) = [Some ''A'']"
  by (simp add: handler_valid build_query_params_def js_or_def init_state_def)


section \<open>Properties of the payment middleware and of the gated route\<close>

lemma verify_eq:
  "verify l h rq s =
     (decide h rq (l h (network rq)), s\<lparr>ledgerQueries := ledgerQueries s @ [h]\<rparr>)"
  by (simp add: verify_def getTransaction_def)

lemma same_address_refl [simp]: "same_address a a"
  by (simp add: same_address_def)

lemma same_address_ignores_case:
  "same_address ''0xAbCdEf'' ''0xabcdef'' \<and> \<not> same_address ''0xabcdef'' ''0xabcdee''"
  by code_simp

lemma gate_no_proof:
  "paymentHash req = None \<Longrightarrow>
   paymentRequired opts env l now req s =
     (Challenge \<lparr>ch_amount = price opts, ch_network = network (requirement env),
                 ch_recipientAddress = recipientAddress (requirement env),
                 ch_instructions = instructions env\<rparr>, s)"
  by (simp add: paymentRequired_def)

lemma gate_bypass:
  "paymentHash req = Some bypassToken \<Longrightarrow>
   paymentRequired opts env l now req s =
     (if developmentMode env
      then (Admitted (DevModeBypass \<lparr>hash = bypassToken,
               amount = minimumAmount (requirement env), timestamp = now\<rparr>), s)
      else (Rejected (VerificationRejected BypassOutsideDevelopmentMode), s))"
  by (simp add: paymentRequired_def)

lemma first_payment:
  "paymentRequired \<lparr>price = ''0.01''\<rparr> (sample_env False)
      (ledger_with ''0xabc'' (sample_tx USDC_CONTRACT dev_address 10000)) 5
      (proof_request (Some ''0xabc'') (mk_query None None None None)) init_state
   = (Admitted (Verified paid_payment), paid_state)"
  by (simp add: paymentRequired_def proof_request_def bypassToken_def init_state_def verify_eq
      decide_def ledger_with_def sample_env_def sample_requirement_def sample_tx_def put_def
      paid_payment_def paid_state_def)

text \<open>
  C1: a request whose proof header is the bypass token \<open>demo\<close> is admitted with a
  \<open>DevModeBypass\<close> verdict when development mode is on, and is answered
  \<open>VerificationRejected\<close>, never admitted, when it is off; in both cases no ledger query is made
  and the cache is left as it was.
\<close>

theorem bypass_token_only_in_development_mode:
  assumes "paymentHash req = Some ''demo''"
  shows "(if developmentMode env
          then (\<exists>p. fst (paymentRequired opts env l now req s) = Admitted (DevModeBypass p))
          else (\<exists>why. fst (paymentRequired opts env l now req s)
                         = Rejected (VerificationRejected why))
             \<and> (\<forall>v. fst (paymentRequired opts env l now req s) \<noteq> Admitted v))
       \<and> ledgerQueries (snd (paymentRequired opts env l now req s)) = ledgerQueries s
       \<and> cache (snd (paymentRequired opts env l now req s)) = cache s"
  using assms by (simp add: gate_bypass bypassToken_def [symmetric])

theorem bypass_token_witness:
  "paymentHash (proof_request (Some ''demo'') (mk_query None None None None)) = Some ''demo''
   \<and> (\<exists>p. fst (paymentRequired \<lparr>price = ''0.01''\<rparr> (sample_env True)
                 (ledger_with ''demo'' (sample_tx USDC_CONTRACT dev_address 10000)) 7
                 (proof_request (Some ''demo'') (mk_query None None None None)) init_state)
           = Admitted (DevModeBypass p))
   \<and> (\<forall>v. fst (paymentRequired \<lparr>price = ''0.01''\<rparr> (sample_env False)
                 (ledger_with ''demo'' (sample_tx USDC_CONTRACT dev_address 10000)) 7
                 (proof_request (Some ''demo'') (mk_query None None None None)) init_state)
           \<noteq> Admitted v)
   \<and> ledgerQueries (snd (paymentRequired \<lparr>price = ''0.01''\<rparr> (sample_env True)
                 (ledger_with ''demo'' (sample_tx USDC_CONTRACT dev_address 10000)) 7
                 (proof_request (Some ''demo'') (mk_query None None None None)) init_state)) = []"
proof -
  have h: "paymentHash (proof_request (Some ''demo'') (mk_query None None None None))
      = Some ''demo''"
    by (simp add: proof_request_def)
  show ?thesis
    using bypass_token_only_in_development_mode
        [OF h, of "sample_env True" "\<lparr>price = ''0.01''\<rparr>"
          "ledger_with ''demo'' (sample_tx USDC_CONTRACT dev_address 10000)" 7 init_state]
      bypass_token_only_in_development_mode
        [OF h, of "sample_env False" "\<lparr>price = ''0.01''\<rparr>"
          "ledger_with ''demo'' (sample_tx USDC_CONTRACT dev_address 10000)" 7 init_state]
      h
    by (simp add: sample_env_def init_state_def)
qed

text \<open>
  C3: for a transaction that the ledger has, finalized and successful, whose transfer is in the
  required token contract and to the required recipient, the verdict is \<open>InsufficientAmount\<close>
  when the amount is strictly below \<open>minimumAmount - tolerance\<close> and \<open>Verified\<close> otherwise, so
  at exactly \<open>minimumAmount - tolerance\<close> it is \<open>Verified\<close>.
\<close>

theorem tolerance_boundary:
  assumes "l h (network rq) = Some tx"
    and "finalized tx" and "status tx = Success"
    and "transferEvent tx = Some ev"
    and "ev_token ev = tokenContract rq"
    and "same_address (ev_recipient ev) (recipientAddress rq)"
  shows "fst (verify l h rq s) =
     (if ev_amount ev < minimumAmount rq - tolerance rq then InsufficientAmount
      else Verified \<lparr>hash = h, amount = ev_amount ev, timestamp = tx_timestamp tx\<rparr>)"
  using assms by (simp add: verify_eq decide_def)

theorem tolerance_boundary_witness:
  "minimumAmount sample_requirement - tolerance sample_requirement = 9999
   \<and> fst (verify (ledger_with ''0xabc'' (sample_tx USDC_CONTRACT dev_address 9999)) ''0xabc''
          sample_requirement init_state)
     = Verified \<lparr>hash = ''0xabc'', amount = 9999, timestamp = 1700000000\<rparr>
   \<and> fst (verify (ledger_with ''0xabc'' (sample_tx USDC_CONTRACT dev_address 9998)) ''0xabc''
          sample_requirement init_state)
     = InsufficientAmount"
proof -
  have found: "\<And>amt. ledger_with ''0xabc'' (sample_tx USDC_CONTRACT dev_address amt) ''0xabc''
       (network sample_requirement) = Some (sample_tx USDC_CONTRACT dev_address amt)"
    by (simp add: ledger_with_def)
  have fin: "\<And>amt. finalized (sample_tx USDC_CONTRACT dev_address amt)"
    by (simp add: sample_tx_def)
  have ok: "\<And>amt. status (sample_tx USDC_CONTRACT dev_address amt) = Success"
    by (simp add: sample_tx_def)
  have ev: "\<And>amt. transferEvent (sample_tx USDC_CONTRACT dev_address amt)
       = Some \<lparr>ev_sender = ''sender'', ev_recipient = dev_address, ev_token = USDC_CONTRACT,
                ev_amount = amt\<rparr>"
    by (simp add: sample_tx_def)
  have tok: "\<And>amt. ev_token \<lparr>ev_sender = ''sender'', ev_recipient = dev_address,
       ev_token = USDC_CONTRACT, ev_amount = amt\<rparr> = tokenContract sample_requirement"
    by (simp add: sample_requirement_def)
  have rcp: "\<And>amt. same_address
       (ev_recipient \<lparr>ev_sender = ''sender'', ev_recipient = dev_address,
          ev_token = USDC_CONTRACT, ev_amount = amt\<rparr>)
       (recipientAddress sample_requirement)"
    by (simp add: sample_requirement_def)
  show ?thesis
    using tolerance_boundary
        [where l = "ledger_with ''0xabc'' (sample_tx USDC_CONTRACT dev_address 9999)"
           and s = init_state, OF found fin ok ev tok rcp]
      tolerance_boundary
        [where l = "ledger_with ''0xabc'' (sample_tx USDC_CONTRACT dev_address 9998)"
           and s = init_state, OF found fin ok ev tok rcp]
    by (simp add: sample_tx_def sample_requirement_def)
qed

text \<open>
  C8: a request without a proof header gets status 402 with the challenge body (amount,
  network, recipient address, instructions) and does not reach the handler; on the transfers
  route the amount is \<open>0.01\<close>.
\<close>

theorem challenge_without_proof:
  assumes "paymentHash req = None"
  shows "gated (paymentRequired opts env l now) handler req s =
           (Json 402 (ChallengeBody
              \<lparr>ch_amount = price opts, ch_network = network (requirement env),
               ch_recipientAddress = recipientAddress (requirement env),
               ch_instructions = instructions env\<rparr>), s)
       \<and> transfers_route env l now g req s =
           (Json 402 (ChallengeBody
              \<lparr>ch_amount = ''0.01'', ch_network = network (requirement env),
               ch_recipientAddress = recipientAddress (requirement env),
               ch_instructions = instructions env\<rparr>), s)"
  using assms by (simp add: transfers_route_def gated_def gate_no_proof)

theorem challenge_without_proof_witness:
  "paymentHash (proof_request None (mk_query (Some dev_address) None None None)) = None
   \<and> transfers_route (sample_env False) empty_ledger 0 (provider_with None)
        (proof_request None (mk_query (Some dev_address) None None None)) init_state
     = (Json 402 (ChallengeBody
          \<lparr>ch_amount = ''0.01'', ch_network = TestNetwork, ch_recipientAddress = dev_address,
           ch_instructions = ''Send 0.01 USDC on Solana Devnet to receive access''\<rparr>),
        init_state)"
proof -
  have h: "paymentHash (proof_request None (mk_query (Some dev_address) None None None)) = None"
    by (simp add: proof_request_def)
  show ?thesis
    using challenge_without_proof
        [OF h, where env = "sample_env False" and l = empty_ledger and now = 0
           and g = "provider_with None" and s = init_state and opts = "\<lparr>price = ''0.01''\<rparr>"
           and handler = "transfers_handler (provider_with None)"] h
    by (simp add: sample_env_def sample_requirement_def)
qed

text \<open>
  C6, as the route has it: the address check is the handler's, and the handler runs only for a
  request that the payment middleware before it has admitted. For a request in which
  \<open>address\<close>, \<open>fromAddress\<close> and \<open>toAddress\<close> are all absent or empty: when the middleware
  admits it, the response is status 400 with the body of lines 51 to 56 and the provider is not
  called (the state is the one the middleware left); when the middleware does not admit it,
  the response is the middleware's own, the 402 challenge or its rejection.
\<close>

theorem missing_address_after_gate:
  assumes "\<not> truthy (q_address (req_query req))"
    and "\<not> truthy (q_fromAddress (req_query req))"
    and "\<not> truthy (q_toAddress (req_query req))"
  shows "gated gate (transfers_handler g) req s =
           (case gate req s of
              (Admitted v, s') \<Rightarrow> (Json 400 (BadRequestBody bad_request), s')
            | (Challenge c, s') \<Rightarrow> (Json 402 (ChallengeBody c), s')
            | (Rejected e, s') \<Rightarrow> (Rejection e, s'))
       \<and> b_status bad_request = 400
       \<and> b_error bad_request = ''Bad Request''
       \<and> b_message bad_request
           = ''At least one of: address, fromAddress, or toAddress is required''"
proof -
  obtain r s' where r: "gate req s = (r, s')"
    by (cases "gate req s")
  show ?thesis
    using assms r
    by (cases r) (simp_all add: gated_def handler_invalid bad_request_def)
qed

theorem missing_address_after_gate_witness:
  "gated (paymentRequired \<lparr>price = ''0.01''\<rparr> (sample_env True) empty_ledger 0)
        (transfers_handler (provider_with None))
        (proof_request (Some ''demo'') (mk_query None (Some '''') None None)) init_state
     = (Json 400 (BadRequestBody bad_request), init_state)
   \<and> gated (paymentRequired \<lparr>price = ''0.01''\<rparr> (sample_env True) empty_ledger 0)
        (transfers_handler (provider_with None))
        (proof_request None (mk_query None (Some '''') None None)) init_state
     = (Json 402 (ChallengeBody
          \<lparr>ch_amount = ''0.01'', ch_network = TestNetwork, ch_recipientAddress = dev_address,
           ch_instructions = ''Send 0.01 USDC on Solana Devnet to receive access''\<rparr>),
        init_state)"
proof -
  have adm: "paymentRequired \<lparr>price = ''0.01''\<rparr> (sample_env True) empty_ledger 0
       (proof_request (Some ''demo'') (mk_query None (Some '''') None None)) init_state
     = (Admitted (DevModeBypass \<lparr>hash = ''demo'', amount = 10000, timestamp = 0\<rparr>), init_state)"
    by (simp add: gate_bypass proof_request_simps bypassToken_def sample_env_def
        sample_requirement_def)
  have chal: "paymentRequired \<lparr>price = ''0.01''\<rparr> (sample_env True) empty_ledger 0
       (proof_request None (mk_query None (Some '''') None None)) init_state
     = (Challenge
          \<lparr>ch_amount = ''0.01'', ch_network = TestNetwork, ch_recipientAddress = dev_address,
           ch_instructions = ''Send 0.01 USDC on Solana Devnet to receive access''\<rparr>,
        init_state)"
    by (simp add: gate_no_proof proof_request_simps sample_env_def sample_requirement_def)
  have a: "\<And>h. \<not> truthy (q_address (req_query
       (proof_request h (mk_query None (Some '''') None None))))"
    by (simp add: proof_request_simps)
  have f: "\<And>h. \<not> truthy (q_fromAddress (req_query
       (proof_request h (mk_query None (Some '''') None None))))"
    by (simp add: proof_request_simps)
  have t: "\<And>h. \<not> truthy (q_toAddress (req_query
       (proof_request h (mk_query None (Some '''') None None))))"
    by (simp add: proof_request_simps)
  show ?thesis
    using missing_address_after_gate
        [where gate = "paymentRequired \<lparr>price = ''0.01''\<rparr> (sample_env True) empty_ledger 0"
           and g = "provider_with None" and s = init_state, OF a f t, of "Some ''demo''"]
      missing_address_after_gate
        [where gate = "paymentRequired \<lparr>price = ''0.01''\<rparr> (sample_env True) empty_ledger 0"
           and g = "provider_with None" and s = init_state, OF a f t, of None]
      adm chal
    by simp
qed

text \<open>
  C6 as stated fails twice, with the middleware in front of the handler as the specification
  describes it. A request with no address filter and no proof header is answered 402, not 400.
  A request with no address filter and the proof \<open>0xabc\<close>, not seen before, is answered 400 only
  after the verifier has looked \<open>0xabc\<close> up on the ledger.
\<close>

theorem missing_address_counterexample:
  "fst (transfers_route (sample_env False) empty_ledger 0 (provider_with None)
          (proof_request None (mk_query None None None None)) init_state)
     = Json 402 (ChallengeBody
          \<lparr>ch_amount = ''0.01'', ch_network = TestNetwork, ch_recipientAddress = dev_address,
           ch_instructions = ''Send 0.01 USDC on Solana Devnet to receive access''\<rparr>)
   \<and> transfers_route (sample_env False)
          (ledger_with ''0xabc'' (sample_tx USDC_CONTRACT dev_address 10000)) 5
          (provider_with None)
          (proof_request (Some ''0xabc'') (mk_query None None None None)) init_state
     = (Json 400 (BadRequestBody bad_request), paid_state)
   \<and> ledgerQueries paid_state = [''0xabc'']"
proof -
  have a: "fst (transfers_route (sample_env False) empty_ledger 0 (provider_with None)
          (proof_request None (mk_query None None None None)) init_state)
     = Json 402 (ChallengeBody
          \<lparr>ch_amount = ''0.01'', ch_network = TestNetwork, ch_recipientAddress = dev_address,
           ch_instructions = ''Send 0.01 USDC on Solana Devnet to receive access''\<rparr>)"
    by (simp add: transfers_route_def gated_def gate_no_proof proof_request_def
        sample_env_def sample_requirement_def)
  have b: "transfers_route (sample_env False)
          (ledger_with ''0xabc'' (sample_tx USDC_CONTRACT dev_address 10000)) 5
          (provider_with None)
          (proof_request (Some ''0xabc'') (mk_query None None None None)) init_state
     = (Json 400 (BadRequestBody bad_request), paid_state)"
    by (simp add: transfers_route_def gated_def first_payment handler_invalid
        proof_request_simps)
  have c: "ledgerQueries paid_state = [''0xabc'']"
    by (simp add: paid_state_def)
  from a b c show ?thesis by simp
qed


section \<open>Properties of the payment script\<close>

lemma resolve_signature:
  "resolve ''TRANSFER_FUNCTION_SIGNATURE'' = Inl (ReferenceError ''TRANSFER_FUNCTION_SIGNATURE'')"
  by (simp add: resolve_def module_consts_def)

lemma sendUSDCPayment_never_sends: "snd (sendUSDCPayment w recipient amountBigInt) = []"
  by (simp add: sendUSDCPayment_def resolve_signature Let_def
      split: sum.splits list.splits option.splits)

lemma BigInt_0x2710: "BigInt (Some ''0x2710'') = Inr 10000"
  by (simp add: BigInt_def trim_def is_ws_def radix_literal_def is_radix_digit_def
      radix_digit_def radix_value_def)

text \<open>
  C10: whenever \<open>sendUSDCPayment\<close> gets past the no-balance check of line 43 and the
  sufficient-balance check of line 58, it throws a \<open>ReferenceError\<close> for
  \<open>TRANSFER_FUNCTION_SIGNATURE\<close> at line 69 and no transaction has been handed to the wallet:
  the module declares \<open>TOKEN_PROGRAM_ID\<close> and no \<open>TRANSFER_FUNCTION_SIGNATURE\<close>.
\<close>

theorem transfer_signature_undefined:
  assumes "walletAddress w = Inr senderAddress"
    and "getTokenBalances w senderAddress [USDC_CONTRACT] = Inr (balance # others)"
    and "tokenBalance balance \<noteq> Some ''addr''"
    and "tokenBalance balance \<noteq> Some ''0x0''"
    and "BigInt (tokenBalance balance) = Inr balanceInSmallestUnit"
    and "\<not> amountInSmallestUnit > balanceInSmallestUnit"
  shows "sendUSDCPayment w recipient (Some amountInSmallestUnit)
           = (Thrown (ReferenceError ''TRANSFER_FUNCTION_SIGNATURE''), [])
       \<and> map_of module_consts ''TRANSFER_FUNCTION_SIGNATURE'' = None
       \<and> map_of module_consts ''TOKEN_PROGRAM_ID'' = Some TOKEN_PROGRAM_ID"
  using assms
  by (simp add: sendUSDCPayment_def resolve_signature Let_def module_consts_def)

theorem transfer_signature_undefined_witness:
  "walletAddress sample_wallet = Inr ''sender''
   \<and> BigInt (Some ''0x2710'') = Inr 10000
   \<and> \<not> (10000::int) > 10000
   \<and> sendUSDCPayment sample_wallet dev_address (Some 10000)
       = (Thrown (ReferenceError ''TRANSFER_FUNCTION_SIGNATURE''), [])"
proof -
  have a: "walletAddress sample_wallet = Inr ''sender''"
    by (simp add: sample_wallet_def)
  have b: "getTokenBalances sample_wallet ''sender'' [USDC_CONTRACT]
      = Inr (\<lparr>contractAddress = USDC_CONTRACT, tokenBalance = Some ''0x2710''\<rparr> # [])"
    by (simp add: sample_wallet_def)
  have c: "tokenBalance \<lparr>contractAddress = USDC_CONTRACT, tokenBalance = Some ''0x2710''\<rparr>
      \<noteq> Some ''addr''"
    by simp
  have d: "tokenBalance \<lparr>contractAddress = USDC_CONTRACT, tokenBalance = Some ''0x2710''\<rparr>
      \<noteq> Some ''0x0''"
    by simp
  have e: "BigInt (tokenBalance \<lparr>contractAddress = USDC_CONTRACT, tokenBalance = Some ''0x2710''\<rparr>)
      = Inr 10000"
    by (simp add: BigInt_0x2710)
  have f: "\<not> (10000::int) > 10000" by simp
  show ?thesis
    using transfer_signature_undefined [OF a b c d e f, of dev_address] a BigInt_0x2710
    by simp
qed

end
